theory Spec2Isabelle
  imports Main
begin

section \<open>Checklist: a group of checkboxes over a caller-owned selection\<close>

text \<open>
  The component of \<^verbatim>\<open>src/components/input/Checklist.js\<close> is stateless: \<^verbatim>\<open>listItem\<close> and
  \<^verbatim>\<open>render\<close> are functions of the props, and the two \<^verbatim>\<open>onChange\<close> closures compute the
  object handed to \<^verbatim>\<open>setProps\<close>. The embedding follows the file top to bottom.
\<close>

subsection \<open>Values\<close>

text \<open>
  An option's \<^verbatim>\<open>value\<close> and \<^verbatim>\<open>label\<close> are
  \<^verbatim>\<open>PropTypes.oneOfType([PropTypes.string, PropTypes.number])\<close>. Numbers are taken to be
  integers; a number and a string are different values whatever their digits.
\<close>

datatype scalar = Num int | Str string

text \<open>The option shape of \<^verbatim>\<open>PropTypes.exact\<close>; an absent \<^verbatim>\<open>disabled\<close> is \<open>None\<close>.\<close>

record option_item =
  label :: scalar
  value_o :: scalar
  disabled :: "bool option"

subsection \<open>The ramda functions the component imports\<close>

text \<open>
  \<^verbatim>\<open>import {append, contains, without} from 'ramda'\<close>. The three functions are rendered after
  the library: \<^verbatim>\<open>contains(a, list)\<close> is \<^verbatim>\<open>_indexOf(list, a, 0) >= 0\<close>, a scan from the left
  that compares without coercion; \<^verbatim>\<open>without(xs, list)\<close> is
  \<^verbatim>\<open>reject(flip(_includes)(xs), list)\<close>; \<^verbatim>\<open>append(el, list)\<close> is \<^verbatim>\<open>_concat(list, [el])\<close>.
\<close>

fun indexOf :: "'a list \<Rightarrow> 'a \<Rightarrow> int \<Rightarrow> int" where
  "indexOf [] a idx = - 1"
| "indexOf (item # rest) a idx = (if item = a then idx else indexOf rest a (idx + 1))"

definition contains :: "'a \<Rightarrow> 'a list \<Rightarrow> bool" where
  "contains a list = (0 \<le> indexOf list a 0)"

definition reject :: "('a \<Rightarrow> bool) \<Rightarrow> 'a list \<Rightarrow> 'a list" where
  "reject pred list = filter (\<lambda>x. \<not> pred x) list"

definition without :: "'a list \<Rightarrow> 'a list \<Rightarrow> 'a list" where
  "without xs list = reject (\<lambda>x. contains x xs) list"

definition append_el :: "'a \<Rightarrow> 'a list \<Rightarrow> 'a list" where
  "append_el el list = list @ [el]"

subsection \<open>Checked state and the two change handlers\<close>

text \<open>Line 36: \<^verbatim>\<open>const checked = contains(option.value, value)\<close>.\<close>

definition checked :: "option_item \<Rightarrow> scalar list \<Rightarrow> bool" where
  "checked option selection = contains (value_o option) selection"

text \<open>
  Lines 58 to 63 (custom mode) and 82 to 87 (native mode): the variable \<^verbatim>\<open>newValue\<close> of the
  handler. The source writes the computation twice; so does the embedding.
\<close>

definition newValue_custom :: "option_item \<Rightarrow> scalar list \<Rightarrow> scalar list" where
  "newValue_custom option selection =
     (if contains (value_o option) selection
      then without [value_o option] selection
      else append_el (value_o option) selection)"

definition newValue_native :: "option_item \<Rightarrow> scalar list \<Rightarrow> scalar list" where
  "newValue_native option selection =
     (if contains (value_o option) selection
      then without [value_o option] selection
      else append_el (value_o option) selection)"

text \<open>
  Lines 64 and 88: \<^verbatim>\<open>setProps({value: newValue})\<close>. A handler is represented by the object it
  passes to \<^verbatim>\<open>setProps\<close> when it is called.
\<close>

type_synonym update = "(string \<times> scalar list) list"

definition onChange_custom :: "option_item \<Rightarrow> scalar list \<Rightarrow> update" where
  "onChange_custom option selection = [(''value'', newValue_custom option selection)]"

definition onChange_native :: "option_item \<Rightarrow> scalar list \<Rightarrow> update" where
  "onChange_native option selection = [(''value'', newValue_native option selection)]"

subsection \<open>JavaScript values of the render\<close>

text \<open>
  The values that flow through \<^verbatim>\<open>listItem\<close> and \<^verbatim>\<open>render\<close>: \<^verbatim>\<open>undefined\<close>, booleans,
  numbers, strings, style objects (a dictionary from property names to values), the
  \<^verbatim>\<open>loading_state\<close> object and the change handlers.
\<close>

type_synonym style = "string \<rightharpoonup> scalar"

record loading_state =
  is_loading :: "bool option"
  prop_name :: "string option"
  component_name :: "string option"

datatype jsv =
    JUndefined
  | JBool bool
  | JNum int
  | JStr string
  | JObj style
  | JLoading loading_state
  | JHandler update

fun truthy :: "jsv \<Rightarrow> bool" where
  "truthy JUndefined = False"
| "truthy (JBool b) = b"
| "truthy (JNum n) = (n \<noteq> 0)"
| "truthy (JStr s) = (s \<noteq> [])"
| "truthy (JObj st) = True"
| "truthy (JLoading l) = True"
| "truthy (JHandler h) = True"

text \<open>\<^verbatim>\<open>a && b\<close> and \<^verbatim>\<open>a || b\<close> return one of their operands.\<close>

definition js_and :: "jsv \<Rightarrow> jsv \<Rightarrow> jsv" where
  "js_and a b = (if truthy a then b else a)"

definition js_or :: "jsv \<Rightarrow> jsv \<Rightarrow> jsv" where
  "js_or a b = (if truthy a then a else b)"

text \<open>A prop that was not passed reads as \<^verbatim>\<open>undefined\<close>.\<close>

definition jstr :: "string option \<Rightarrow> jsv" where
  "jstr s = (case s of None \<Rightarrow> JUndefined | Some t \<Rightarrow> JStr t)"

definition jbool :: "bool option \<Rightarrow> jsv" where
  "jbool b = (case b of None \<Rightarrow> JUndefined | Some c \<Rightarrow> JBool c)"

definition jstyle :: "style option \<Rightarrow> jsv" where
  "jstyle st = (case st of None \<Rightarrow> JUndefined | Some m \<Rightarrow> JObj m)"

definition of_scalar :: "scalar \<Rightarrow> jsv" where
  "of_scalar v = (case v of Num n \<Rightarrow> JNum n | Str s \<Rightarrow> JStr s)"

text \<open>Decimal rendering of a number inside a template literal.\<close>

definition digit_char :: "nat \<Rightarrow> char" where
  "digit_char d = ''0123456789'' ! d"

fun digits :: "nat \<Rightarrow> string" where
  "digits n = (if n < 10 then [digit_char n] else digits (n div 10) @ [digit_char (n mod 10)])"

declare digits.simps [simp del]

definition toString :: "scalar \<Rightarrow> string" where
  "toString v =
     (case v of
        Num n \<Rightarrow> (if n < 0 then ''-'' @ digits (nat (- n)) else digits (nat n))
      | Str s \<Rightarrow> s)"

text \<open>\<^verbatim>\<open>${x}\<close> inside a template literal, for the values that can reach it.\<close>

fun template :: "jsv \<Rightarrow> string" where
  "template (JStr s) = s"
| "template (JNum n) = toString (Num n)"
| "template (JBool b) = (if b then ''true'' else ''false'')"
| "template JUndefined = ''undefined''"
| "template other = ''[object Object]''"

text \<open>
  \<^verbatim>\<open>classNames(...)\<close> of the classnames package: falsy arguments are skipped, strings and
  numbers are joined with one space.
\<close>

fun join :: "string list \<Rightarrow> string" where
  "join [] = []"
| "join [c] = c"
| "join (c # d # cs) = c @ '' '' @ join (d # cs)"

fun class_of :: "jsv \<Rightarrow> string list" where
  "class_of (JStr s) = (if s = [] then [] else [s])"
| "class_of (JNum n) = (if n = 0 then [] else [toString (Num n)])"
| "class_of other = []"

definition classNames :: "jsv list \<Rightarrow> string" where
  "classNames args = join (concat (map class_of args))"

subsection \<open>Elements\<close>

text \<open>
  A JSX element is built from its attributes in source order. The attributes form an
  object literal, so a name written twice keeps the value written last; \<^verbatim>\<open>key\<close> is taken
  out of the props by React.
\<close>

datatype node =
    Element (tag: string) (key_of: jsv) (props_of: "string \<rightharpoonup> jsv") (children: "node list")
  | Text scalar

definition object_literal :: "(string \<times> jsv) list \<Rightarrow> (string \<rightharpoonup> jsv)" where
  "object_literal attrs = fold (\<lambda>(k, v) obj. obj(k \<mapsto> v)) attrs Map.empty"

definition read_prop :: "(string \<rightharpoonup> jsv) \<Rightarrow> string \<Rightarrow> jsv" where
  "read_prop obj k = (case obj k of None \<Rightarrow> JUndefined | Some v \<Rightarrow> v)"

definition jsx :: "string \<Rightarrow> (string \<times> jsv) list \<Rightarrow> node list \<Rightarrow> node" where
  "jsx t attrs kids =
     (let obj = object_literal attrs
      in Element t (read_prop obj ''key'') (obj(''key'' := None)) kids)"

subsection \<open>Props\<close>

text \<open>
  \<^verbatim>\<open>Checklist.propTypes\<close>, without \<^verbatim>\<open>setProps\<close> (the handlers are represented by their
  argument to it). \<open>None\<close> is a prop that reads \<^verbatim>\<open>undefined\<close> or \<^verbatim>\<open>null\<close>; \<^verbatim>\<open>options\<close> and
  \<^verbatim>\<open>value\<close> are arrays.
\<close>

record props =
  id_p :: "string option"
  options :: "option_item list"
  value_p :: "scalar list"
  className :: "string option"
  style_p :: "style option"
  key_p :: "string option"
  inputStyle :: "style option"
  inputClassName :: "string option"
  labelStyle :: "style option"
  labelCheckedStyle :: "style option"
  labelClassName :: "string option"
  labelCheckedClassName :: "string option"
  inline :: "bool option"
  switch :: "bool option"
  custom :: "bool option"
  loading_state_p :: "loading_state option"

text \<open>\<^verbatim>\<open>Checklist.defaultProps\<close>, applied by React to the props that are \<^verbatim>\<open>undefined\<close>.\<close>

definition defaultProps :: props where
  "defaultProps =
     \<lparr> id_p = None, options = [], value_p = [], className = None, style_p = None,
       key_p = None, inputStyle = Some Map.empty, inputClassName = Some [],
       labelStyle = Some Map.empty, labelCheckedStyle = None,
       labelClassName = Some [], labelCheckedClassName = None,
       inline = None, switch = None, custom = Some True, loading_state_p = None \<rparr>"

subsection \<open>\<^verbatim>\<open>listItem\<close>\<close>

text \<open>Object spread: \<^verbatim>\<open>{...a, ...b}\<close>; spreading \<^verbatim>\<open>undefined\<close> adds nothing.\<close>

definition spread :: "style option \<Rightarrow> style" where
  "spread st = (case st of None \<Rightarrow> Map.empty | Some m \<Rightarrow> m)"

text \<open>Lines 38 to 40.\<close>

definition mergedLabelStyle :: "props \<Rightarrow> bool \<Rightarrow> jsv" where
  "mergedLabelStyle p chk =
     (if chk then JObj (spread (labelStyle p) ++ spread (labelCheckedStyle p))
      else jstyle (labelStyle p))"

text \<open>Lines 44 to 67: the attributes of \<^verbatim>\<open>CustomInput\<close>, as the source lists them.\<close>

definition customInput_attrs :: "props \<Rightarrow> option_item \<Rightarrow> (string \<times> jsv) list" where
  "customInput_attrs p option =
     (let chk = checked option (value_p p) in
      [ (''id'', JStr (''_'' @ template (jstr (id_p p)) @ ''-'' @ toString (value_o option))),
        (''checked'', JBool chk),
        (''className'', jstr (inputClassName p)),
        (''disabled'', JBool (truthy (jbool (disabled option)))),
        (''type'', JStr (if truthy (jbool (switch p)) then ''switch'' else ''checkbox'')),
        (''label'', of_scalar (label option)),
        (''labelStyle'', mergedLabelStyle p chk),
        (''className'',
           JStr (classNames [jstr (labelClassName p),
                             js_and (JBool chk) (jstr (labelCheckedClassName p))])),
        (''inline'', jbool (inline p)),
        (''onChange'', JHandler (onChange_custom option (value_p p))),
        (''key'', of_scalar (value_o option)) ])"

text \<open>Lines 71 to 102: the native item, a \<^verbatim>\<open>div\<close> holding an \<^verbatim>\<open>input\<close> and a \<^verbatim>\<open>label\<close>.\<close>

definition native_input :: "props \<Rightarrow> option_item \<Rightarrow> node" where
  "native_input p option =
     jsx ''input''
       [ (''checked'', JBool (checked option (value_p p))),
         (''className'', JStr (classNames [JStr ''form-check-input'', jstr (inputClassName p)])),
         (''disabled'', JBool (truthy (jbool (disabled option)))),
         (''style'', jstyle (inputStyle p)),
         (''type'', JStr ''checkbox''),
         (''onChange'', JHandler (onChange_native option (value_p p))) ]
       []"

definition native_label :: "props \<Rightarrow> option_item \<Rightarrow> node" where
  "native_label p option =
     (let chk = checked option (value_p p) in
      jsx ''label''
        [ (''style'', mergedLabelStyle p chk),
          (''className'',
             JStr (classNames [JStr ''form-check-label'', jstr (labelClassName p),
                               js_and (JBool chk) (jstr (labelCheckedClassName p))])),
          (''key'', of_scalar (value_o option)) ]
        [Text (label option)])"

definition native_item :: "props \<Rightarrow> option_item \<Rightarrow> node" where
  "native_item p option =
     jsx ''div''
       [ (''className'',
            JStr (classNames [JStr ''form-check'',
                              js_and (jbool (inline p)) (JStr ''form-check-inline'')])),
         (''key'', of_scalar (value_o option)) ]
       [native_input p option, native_label p option]"

text \<open>Line 42: \<^verbatim>\<open>if (id && custom)\<close>.\<close>

definition custom_mode :: "props \<Rightarrow> bool" where
  "custom_mode p = truthy (js_and (jstr (id_p p)) (jbool (custom p)))"

definition listItem :: "props \<Rightarrow> option_item \<Rightarrow> node" where
  "listItem p option =
     (if custom_mode p then jsx ''CustomInput'' (customInput_attrs p option) []
      else native_item p option)"

subsection \<open>\<^verbatim>\<open>render\<close>\<close>

text \<open>Lines 118 to 120: \<^verbatim>\<open>(loading_state && loading_state.is_loading) || undefined\<close>.\<close>

definition data_dash_is_loading :: "loading_state option \<Rightarrow> jsv" where
  "data_dash_is_loading ls =
     js_or (case ls of
              None \<Rightarrow> JUndefined
            | Some l \<Rightarrow> js_and (JLoading l) (jbool (is_loading l)))
           JUndefined"

definition render :: "props \<Rightarrow> node" where
  "render p =
     (let items = map (listItem p) (options p) in
      jsx ''div''
        [ (''id'', jstr (id_p p)),
          (''style'', jstyle (style_p p)),
          (''className'', jstr (className p)),
          (''key'', jstr (key_p p)),
          (''data-dash-is-loading'', data_dash_is_loading (loading_state_p p)) ]
        items)"

subsection \<open>The change handler over a store of arrays\<close>

text \<open>
  The selection is an array the caller owns, so the handler holds a reference to it. A
  store is the list of the arrays allocated so far and a reference is an index into it.
  \<^verbatim>\<open>contains\<close> only reads its array; \<^verbatim>\<open>without\<close> (through \<^verbatim>\<open>filter\<close>) and \<^verbatim>\<open>append\<close> (through
  \<^verbatim>\<open>_concat\<close>) read theirs and build the result in a new array; the literal
  \<^verbatim>\<open>[option.value]\<close> is a new array too.
\<close>

type_synonym store = "scalar list list"

type_synonym ref = nat

definition alloc :: "scalar list \<Rightarrow> store \<Rightarrow> ref \<times> store" where
  "alloc xs h = (length h, h @ [xs])"

definition deref :: "store \<Rightarrow> ref \<Rightarrow> scalar list option" where
  "deref h r = (if r < length h then Some (h ! r) else None)"

definition contains_ref :: "scalar \<Rightarrow> ref \<Rightarrow> store \<Rightarrow> bool option" where
  "contains_ref a r h = map_option (contains a) (deref h r)"

definition without_ref :: "ref \<Rightarrow> ref \<Rightarrow> store \<Rightarrow> (ref \<times> store) option" where
  "without_ref rx r h =
     (case deref h rx of
        None \<Rightarrow> None
      | Some xs \<Rightarrow>
          (case deref h r of
             None \<Rightarrow> None
           | Some list \<Rightarrow> Some (alloc (without xs list) h)))"

definition append_ref :: "scalar \<Rightarrow> ref \<Rightarrow> store \<Rightarrow> (ref \<times> store) option" where
  "append_ref el r h =
     (case deref h r of
        None \<Rightarrow> None
      | Some list \<Rightarrow> Some (alloc (append_el el list) h))"

definition newValue_native_ref :: "option_item \<Rightarrow> ref \<Rightarrow> store \<Rightarrow> (ref \<times> store) option" where
  "newValue_native_ref option r h =
     (case contains_ref (value_o option) r h of
        None \<Rightarrow> None
      | Some c \<Rightarrow>
          (if c then
             (case alloc [value_o option] h of (rx, h1) \<Rightarrow> without_ref rx r h1)
           else append_ref (value_o option) r h))"

section \<open>Properties\<close>

subsection \<open>The library functions on lists\<close>

lemma indexOf_found: "0 \<le> idx \<Longrightarrow> (0 \<le> indexOf list a idx) = (a \<in> set list)"
proof (induction list arbitrary: idx)
  case Nil
  show ?case by simp
next
  case (Cons item rest)
  from Cons.prems have "0 \<le> idx + 1" by simp
  from Cons.IH [OF this] Cons.prems show ?case by auto
qed

lemma contains_set: "contains a list = (a \<in> set list)"
  unfolding contains_def by (rule indexOf_found) simp

lemma without_single: "without [a] list = filter (\<lambda>x. x \<noteq> a) list"
  by (simp add: without_def reject_def contains_set)

subsection \<open>The selection model\<close>

text \<open>
  C1. The toggle computation of the native handler returns the selection with every
  occurrence of the option's value removed, in the order they had, when the value is a
  member of the selection, and the selection with the value added at the end otherwise.
\<close>

theorem newValue_native_toggle:
  "newValue_native option S =
     (if value_o option \<in> set S then filter (\<lambda>x. x \<noteq> value_o option) S
      else S @ [value_o option])"
  by (simp add: newValue_native_def contains_set without_single append_el_def)

theorem newValue_native_toggle_witness:
  "newValue_native \<lparr>label = Str ''B'', value_o = Num 2, disabled = None\<rparr> [Num 1]
     = [Num 1, Num 2]
   \<and> newValue_native \<lparr>label = Str ''A'', value_o = Num 1, disabled = None\<rparr> [Num 1, Num 2]
     = [Num 2]
   \<and> newValue_native \<lparr>label = Str ''A'', value_o = Num 1, disabled = None\<rparr>
        [Num 1, Num 2, Num 1] = [Num 2]"
  using newValue_native_toggle [of "\<lparr>label = Str ''B'', value_o = Num 2, disabled = None\<rparr>" "[Num 1]"]
    newValue_native_toggle [of "\<lparr>label = Str ''A'', value_o = Num 1, disabled = None\<rparr>" "[Num 1, Num 2]"]
    newValue_native_toggle [of "\<lparr>label = Str ''A'', value_o = Num 1, disabled = None\<rparr>" "[Num 1, Num 2, Num 1]"]
  by simp

text \<open>
  C3. Toggling inverts membership: the option is checked in the toggled selection exactly
  when it was not checked in the selection.
\<close>

theorem checked_newValue_native:
  "checked option (newValue_native option S) = (\<not> checked option S)"
  by (simp add: checked_def newValue_native_def contains_set without_single append_el_def)

theorem checked_newValue_native_witness:
  "checked \<lparr>label = Str ''B'', value_o = Num 2, disabled = None\<rparr>
     (newValue_native \<lparr>label = Str ''B'', value_o = Num 2, disabled = None\<rparr> [Num 1])
   \<and> \<not> checked \<lparr>label = Str ''B'', value_o = Num 2, disabled = None\<rparr> [Num 1]"
  using checked_newValue_native [of "\<lparr>label = Str ''B'', value_o = Num 2, disabled = None\<rparr>" "[Num 1]"]
  by (simp add: checked_def contains_def)

text \<open>
  C7. Toggling the same option twice gives a selection with the same members as the one
  started from; the order of the elements may differ.
\<close>

theorem newValue_native_twice:
  "set (newValue_native option (newValue_native option S)) = set S"
  by (auto simp add: newValue_native_def contains_set without_single append_el_def)

theorem newValue_native_twice_witness:
  "set (newValue_native \<lparr>label = Str ''A'', value_o = Num 1, disabled = None\<rparr>
         (newValue_native \<lparr>label = Str ''A'', value_o = Num 1, disabled = None\<rparr>
            [Num 1, Num 2]))
     = set [Num 1, Num 2]
   \<and> newValue_native \<lparr>label = Str ''A'', value_o = Num 1, disabled = None\<rparr>
         (newValue_native \<lparr>label = Str ''A'', value_o = Num 1, disabled = None\<rparr>
            [Num 1, Num 2])
     = [Num 2, Num 1]"
  using newValue_native_twice [of "\<lparr>label = Str ''A'', value_o = Num 1, disabled = None\<rparr>" "[Num 1, Num 2]"]
  by (simp add: newValue_native_def contains_def without_def reject_def append_el_def)

text \<open>
  C8. An option is checked exactly when its value is a member of the selection. Membership
  compares values without coercion: a numeric value is not checked by a selection of
  strings, not even by the string of its own digits, and a string value is not checked
  by a selection of numbers.
\<close>

theorem checked_member:
  "checked option S = (value_o option \<in> set S)
   \<and> \<not> checked (option\<lparr>value_o := Num n\<rparr>) (map Str ss)
   \<and> \<not> checked (option\<lparr>value_o := Num n\<rparr>) [Str (toString (Num n))]
   \<and> \<not> checked (option\<lparr>value_o := Str s\<rparr>) (map Num ns)"
  by (auto simp add: checked_def contains_set)

theorem checked_member_witness:
  "checked \<lparr>label = Str ''A'', value_o = Num 1, disabled = None\<rparr> [Num 1]
   \<and> \<not> checked \<lparr>label = Str ''A'', value_o = Num 1, disabled = None\<rparr> [Str ''1'']
   \<and> \<not> checked \<lparr>label = Str ''A'', value_o = Str ''1'', disabled = None\<rparr> [Num 1]"
  using checked_member [of "\<lparr>label = Str ''A'', value_o = Num 1, disabled = None\<rparr>" "[Num 1]" 1 "[''1'']" "''1''" "[1]"]
  by (simp add: checked_def contains_def)

text \<open>
  C10. The custom-mode handler and the native-mode handler compute the same new
  selection and pass the same object to the update function.
\<close>

theorem onChange_custom_native:
  "newValue_custom option S = newValue_native option S
   \<and> onChange_custom option S = onChange_native option S"
  by (simp add: newValue_custom_def newValue_native_def onChange_custom_def onChange_native_def)

theorem onChange_custom_native_witness:
  "onChange_custom \<lparr>label = Str ''B'', value_o = Num 2, disabled = None\<rparr> [Num 1]
     = [(''value'', [Num 1, Num 2])]
   \<and> onChange_native \<lparr>label = Str ''B'', value_o = Num 2, disabled = None\<rparr> [Num 1]
     = [(''value'', [Num 1, Num 2])]"
  using onChange_custom_native [of "\<lparr>label = Str ''B'', value_o = Num 2, disabled = None\<rparr>" "[Num 1]"]
  by (simp add: onChange_native_def newValue_native_def contains_def append_el_def)

subsection \<open>The store\<close>

text \<open>
  C9. Computing the toggle result leaves the caller's array as it was: when the handler
  runs on a reference to the selection, it returns a reference to a new array holding
  the new selection, different from the one it was given, and every array that existed
  before, the selection among them, has the contents it had.
\<close>

theorem newValue_native_ref_frame:
  assumes "deref h r = Some S"
  shows "\<exists>r' h'. newValue_native_ref option r h = Some (r', h')
           \<and> deref h' r = Some S
           \<and> r' \<noteq> r
           \<and> deref h' r' = Some (newValue_native option S)
           \<and> take (length h) h' = h"
proof (cases "contains (value_o option) S")
  case True
  with assms show ?thesis
    by (auto simp add: newValue_native_ref_def contains_ref_def deref_def alloc_def
        without_ref_def newValue_native_def nth_append split: if_splits)
next
  case False
  with assms show ?thesis
    by (auto simp add: newValue_native_ref_def contains_ref_def deref_def alloc_def
        append_ref_def newValue_native_def nth_append split: if_splits)
qed

theorem newValue_native_ref_frame_witness:
  "deref [[Num 1, Num 2]] 0 = Some [Num 1, Num 2]
   \<and> newValue_native_ref \<lparr>label = Str ''A'', value_o = Num 1, disabled = None\<rparr> 0
        [[Num 1, Num 2]]
     = Some (2, [[Num 1, Num 2], [Num 1], [Num 2]])"
proof -
  have live: "deref [[Num 1, Num 2]] 0 = Some [Num 1, Num 2]"
    by (simp add: deref_def)
  from newValue_native_ref_frame [OF live,
      of "\<lparr>label = Str ''A'', value_o = Num 1, disabled = None\<rparr>"] live
  show ?thesis
    by (simp add: newValue_native_ref_def contains_ref_def deref_def alloc_def
        without_ref_def contains_def without_def reject_def)
qed

subsection \<open>The item renderer\<close>

lemma custom_mode_iff:
  "custom_mode p =
     ((case id_p p of None \<Rightarrow> False | Some s \<Rightarrow> s \<noteq> []) \<and> custom p = Some True)"
  by (auto simp add: custom_mode_def js_and_def jstr_def jbool_def split: option.splits)

lemma customInput_type:
  "read_prop (props_of (jsx ''CustomInput'' (customInput_attrs p option) [])) ''type''
     = JStr (if switch p = Some True then ''switch'' else ''checkbox'')"
  by (auto simp add: jsx_def object_literal_def customInput_attrs_def read_prop_def
      jbool_def Let_def split: option.splits)

lemma native_item_switch: "native_item (p\<lparr>switch := sw\<rparr>) option = native_item p option"
  by (simp add: native_item_def native_input_def native_label_def mergedLabelStyle_def Let_def)

lemma tag_native_item: "tag (native_item p option) = ''div''"
  by (simp add: native_item_def jsx_def Let_def)

text \<open>
  The custom control never receives \<^verbatim>\<open>inputClassName\<close>: the second \<^verbatim>\<open>className\<close> attribute
  of the element replaces the first, so the rendered item does not depend on the prop.
\<close>

lemma customInput_ignores_inputClassName:
  "jsx ''CustomInput'' (customInput_attrs (p\<lparr>inputClassName := c\<rparr>) option) []
     = jsx ''CustomInput'' (customInput_attrs p option) []"
  by (simp add: jsx_def object_literal_def customInput_attrs_def mergedLabelStyle_def Let_def)

text \<open>
  C2, at the props \<^verbatim>\<open>{id: 'grp', inputClassName: 'my-input', labelClassName: 'lbl'}\<close> (the
  rest at their defaults) and the option \<^verbatim>\<open>{label: 'A', value: 1}\<close>. The custom control gets
  the derived identifier, the checked flag, the control kind and the coerced
  \<^verbatim>\<open>disabled\<close>, but its \<^verbatim>\<open>className\<close> is the merged label class \<^verbatim>\<open>'lbl'\<close>, not the input
  class \<^verbatim>\<open>'my-input'\<close>; no prop \<^verbatim>\<open>labelClassName\<close> is passed, and changing
  \<^verbatim>\<open>inputClassName\<close> does not change the element.
\<close>

theorem customInput_className_overwritten:
  "read_prop (props_of (listItem
       (defaultProps\<lparr>id_p := Some ''grp'', inputClassName := Some ''my-input'',
                      labelClassName := Some ''lbl''\<rparr>)
       \<lparr>label = Str ''A'', value_o = Num 1, disabled = None\<rparr>)) ''className''
     = JStr ''lbl''
   \<and> props_of (listItem
       (defaultProps\<lparr>id_p := Some ''grp'', inputClassName := Some ''my-input'',
                      labelClassName := Some ''lbl''\<rparr>)
       \<lparr>label = Str ''A'', value_o = Num 1, disabled = None\<rparr>) ''labelClassName''
     = None
   \<and> read_prop (props_of (listItem
       (defaultProps\<lparr>id_p := Some ''grp'', inputClassName := Some ''my-input'',
                      labelClassName := Some ''lbl''\<rparr>)
       \<lparr>label = Str ''A'', value_o = Num 1, disabled = None\<rparr>)) ''id''
     = JStr ''_grp-1''
   \<and> read_prop (props_of (listItem
       (defaultProps\<lparr>id_p := Some ''grp'', inputClassName := Some ''my-input'',
                      labelClassName := Some ''lbl''\<rparr>)
       \<lparr>label = Str ''A'', value_o = Num 1, disabled = None\<rparr>)) ''type''
     = JStr ''checkbox''
   \<and> listItem
       (defaultProps\<lparr>id_p := Some ''grp'', inputClassName := Some ''other'',
                      labelClassName := Some ''lbl''\<rparr>)
       \<lparr>label = Str ''A'', value_o = Num 1, disabled = None\<rparr>
     = listItem
       (defaultProps\<lparr>id_p := Some ''grp'', inputClassName := Some ''my-input'',
                      labelClassName := Some ''lbl''\<rparr>)
       \<lparr>label = Str ''A'', value_o = Num 1, disabled = None\<rparr>"
  by (simp add: defaultProps_def listItem_def custom_mode_def js_and_def jstr_def jbool_def
      jsx_def object_literal_def customInput_attrs_def read_prop_def classNames_def
      checked_def contains_def toString_def digits.simps digit_char_def
      mergedLabelStyle_def)

text \<open>
  C4. An item takes the custom path exactly when the \<^verbatim>\<open>id\<close> prop is set and the \<^verbatim>\<open>custom\<close>
  flag is true, where a set \<^verbatim>\<open>id\<close> is one that passes the test \<^verbatim>\<open>id &&\<close>: a string that is
  not empty. In every other case the item is the native one, and it is the same item
  whatever the \<^verbatim>\<open>switch\<close> flag. On the custom path the flag selects the control kind
  \<^verbatim>\<open>'switch'\<close> or \<^verbatim>\<open>'checkbox'\<close>.
\<close>

theorem listItem_mode:
  "(tag (listItem p option) = ''CustomInput'')
     = ((case id_p p of None \<Rightarrow> False | Some s \<Rightarrow> s \<noteq> []) \<and> custom p = Some True)
   \<and> (tag (listItem p option) \<noteq> ''CustomInput'' \<longrightarrow>
        listItem p option = native_item p option
        \<and> (\<forall>sw. listItem (p\<lparr>switch := sw\<rparr>) option = listItem p option))
   \<and> (tag (listItem p option) = ''CustomInput'' \<longrightarrow>
        read_prop (props_of (listItem p option)) ''type''
          = JStr (if switch p = Some True then ''switch'' else ''checkbox''))"
proof -
  have mode: "(tag (listItem p option) = ''CustomInput'') = custom_mode p"
    by (simp add: listItem_def tag_native_item jsx_def Let_def)
  have sw: "custom_mode (p\<lparr>switch := sw\<rparr>) = custom_mode p" for sw
    by (simp add: custom_mode_def)
  have native: "\<not> custom_mode p \<Longrightarrow> listItem p option = native_item p option
      \<and> (\<forall>sw. listItem (p\<lparr>switch := sw\<rparr>) option = listItem p option)"
    by (simp add: listItem_def sw native_item_switch)
  have kind: "custom_mode p \<Longrightarrow> read_prop (props_of (listItem p option)) ''type''
      = JStr (if switch p = Some True then ''switch'' else ''checkbox'')"
    using customInput_type [of p option] by (simp add: listItem_def)
  from mode native kind show ?thesis
    by (simp add: custom_mode_iff)
qed

theorem listItem_mode_witness:
  "tag (listItem (defaultProps\<lparr>id_p := Some ''grp'', switch := Some True\<rparr>)
         \<lparr>label = Str ''A'', value_o = Num 1, disabled = None\<rparr>) = ''CustomInput''
   \<and> read_prop (props_of (listItem (defaultProps\<lparr>id_p := Some ''grp'', switch := Some True\<rparr>)
         \<lparr>label = Str ''A'', value_o = Num 1, disabled = None\<rparr>)) ''type'' = JStr ''switch''
   \<and> tag (listItem (defaultProps\<lparr>id_p := Some ''grp'', custom := Some False\<rparr>)
         \<lparr>label = Str ''A'', value_o = Num 1, disabled = None\<rparr>) = ''div''
   \<and> listItem (defaultProps\<lparr>id_p := Some ''grp'', custom := Some False, switch := Some True\<rparr>)
         \<lparr>label = Str ''A'', value_o = Num 1, disabled = None\<rparr>
       = listItem (defaultProps\<lparr>id_p := Some ''grp'', custom := Some False\<rparr>)
           \<lparr>label = Str ''A'', value_o = Num 1, disabled = None\<rparr>"
proof -
  let ?A = "\<lparr>label = Str ''A'', value_o = Num 1, disabled = None\<rparr>"
  let ?p = "defaultProps\<lparr>id_p := Some ''grp'', switch := Some True\<rparr>"
  let ?q = "defaultProps\<lparr>id_p := Some ''grp'', custom := Some False\<rparr>"
  note P = listItem_mode [of ?p ?A]
  note Q = listItem_mode [of ?q ?A]
  have p1: "tag (listItem ?p ?A) = ''CustomInput''"
    using P [THEN conjunct1] by (simp add: defaultProps_def)
  with P [THEN conjunct2, THEN conjunct2]
  have p2: "read_prop (props_of (listItem ?p ?A)) ''type'' = JStr ''switch''"
    by (simp add: defaultProps_def)
  have q1: "tag (listItem ?q ?A) \<noteq> ''CustomInput''"
    using Q [THEN conjunct1] by (simp add: defaultProps_def)
  with Q [THEN conjunct2, THEN conjunct1]
  have q2: "listItem ?q ?A = native_item ?q ?A
      \<and> (\<forall>sw. listItem (?q\<lparr>switch := sw\<rparr>) ?A = listItem ?q ?A)"
    by blast
  from q2 have q3: "tag (listItem ?q ?A) = ''div''"
    by (simp only: tag_native_item)
  from q2 have q4: "listItem (?q\<lparr>switch := Some True\<rparr>) ?A = listItem ?q ?A"
    by blast
  from p1 p2 q3 q4 show ?thesis
    by (intro conjI)
qed

text \<open>
  C5. The merged label style of a checked item is the base label style overlaid key by
  key with the checked-label style, the checked style winning where both have the key;
  the merged label style of an unchecked item is the base label style. Both rendering
  paths attach the merged style of the item's checked state to the label.
\<close>

theorem mergedLabelStyle_overlay:
  "mergedLabelStyle p True
     = JObj (\<lambda>k. case spread (labelCheckedStyle p) k of
                   Some v \<Rightarrow> Some v
                 | None \<Rightarrow> spread (labelStyle p) k)
   \<and> mergedLabelStyle p False = jstyle (labelStyle p)
   \<and> read_prop (props_of (native_label p option)) ''style''
       = mergedLabelStyle p (checked option (value_p p))
   \<and> read_prop (props_of (jsx ''CustomInput'' (customInput_attrs p option) [])) ''labelStyle''
       = mergedLabelStyle p (checked option (value_p p))"
proof -
  have a: "mergedLabelStyle p True
     = JObj (\<lambda>k. case spread (labelCheckedStyle p) k of
                   Some v \<Rightarrow> Some v
                 | None \<Rightarrow> spread (labelStyle p) k)"
    by (simp add: mergedLabelStyle_def map_add_def fun_eq_iff split: option.splits)
  have b: "mergedLabelStyle p False = jstyle (labelStyle p)"
    by (simp add: mergedLabelStyle_def)
  have c: "read_prop (props_of (native_label p option)) ''style''
       = mergedLabelStyle p (checked option (value_p p))"
    by (simp add: native_label_def jsx_def object_literal_def read_prop_def Let_def)
  have d: "read_prop (props_of (jsx ''CustomInput'' (customInput_attrs p option) [])) ''labelStyle''
       = mergedLabelStyle p (checked option (value_p p))"
    by (simp add: customInput_attrs_def jsx_def object_literal_def read_prop_def Let_def)
  from a b c d show ?thesis by simp
qed

theorem mergedLabelStyle_overlay_witness:
  "mergedLabelStyle
      (defaultProps\<lparr>labelStyle := Some [''a'' \<mapsto> Num 1],
                     labelCheckedStyle := Some [''a'' \<mapsto> Num 2, ''b'' \<mapsto> Num 3]\<rparr>) True
     = JObj [''a'' \<mapsto> Num 2, ''b'' \<mapsto> Num 3]
   \<and> mergedLabelStyle
      (defaultProps\<lparr>labelStyle := Some [''a'' \<mapsto> Num 1],
                     labelCheckedStyle := Some [''a'' \<mapsto> Num 2, ''b'' \<mapsto> Num 3]\<rparr>) False
     = JObj [''a'' \<mapsto> Num 1]"
  using mergedLabelStyle_overlay
    [of "defaultProps\<lparr>labelStyle := Some [''a'' \<mapsto> Num 1],
                        labelCheckedStyle := Some [''a'' \<mapsto> Num 2, ''b'' \<mapsto> Num 3]\<rparr>"
        "\<lparr>label = Str ''A'', value_o = Num 1, disabled = None\<rparr>"]
  by (simp add: spread_def jstyle_def defaultProps_def fun_eq_iff)

subsection \<open>The container\<close>

text \<open>
  C6. The loading attribute of the container is \<^verbatim>\<open>true\<close> exactly when a loading state is
  supplied and its \<^verbatim>\<open>is_loading\<close> is true; when no loading state is supplied, or
  \<^verbatim>\<open>is_loading\<close> is false or missing, the attribute is \<^verbatim>\<open>undefined\<close>, never \<^verbatim>\<open>false\<close>.
\<close>

theorem data_dash_is_loading_present:
  "data_dash_is_loading ls
     = (if (case ls of None \<Rightarrow> False | Some l \<Rightarrow> is_loading l = Some True)
        then JBool True else JUndefined)
   \<and> read_prop (props_of (render p)) ''data-dash-is-loading''
       = data_dash_is_loading (loading_state_p p)"
proof -
  have a: "data_dash_is_loading ls
     = (if (case ls of None \<Rightarrow> False | Some l \<Rightarrow> is_loading l = Some True)
        then JBool True else JUndefined)"
    by (auto simp add: data_dash_is_loading_def js_or_def js_and_def jbool_def
        split: option.splits)
  have b: "read_prop (props_of (render p)) ''data-dash-is-loading''
       = data_dash_is_loading (loading_state_p p)"
    by (simp add: render_def jsx_def object_literal_def read_prop_def)
  from a b show ?thesis by simp
qed

theorem data_dash_is_loading_present_witness:
  "data_dash_is_loading
      (Some \<lparr>is_loading = Some True, prop_name = Some ''value'', component_name = None\<rparr>)
     = JBool True
   \<and> data_dash_is_loading
      (Some \<lparr>is_loading = Some False, prop_name = None, component_name = None\<rparr>)
     = JUndefined
   \<and> data_dash_is_loading None = JUndefined
   \<and> read_prop (props_of (render (defaultProps\<lparr>loading_state_p :=
        Some \<lparr>is_loading = Some True, prop_name = None, component_name = None\<rparr>\<rparr>)))
        ''data-dash-is-loading'' = JBool True"
  using
    data_dash_is_loading_present
      [of "Some \<lparr>is_loading = Some True, prop_name = Some ''value'', component_name = None\<rparr>"
          "defaultProps\<lparr>loading_state_p :=
             Some \<lparr>is_loading = Some True, prop_name = None, component_name = None\<rparr>\<rparr>"]
    data_dash_is_loading_present
      [of "Some \<lparr>is_loading = Some False, prop_name = None, component_name = None\<rparr>"
          defaultProps]
    data_dash_is_loading_present [of None defaultProps]
    data_dash_is_loading_present
      [of "Some \<lparr>is_loading = Some True, prop_name = None, component_name = None\<rparr>"
          "defaultProps\<lparr>loading_state_p :=
             Some \<lparr>is_loading = Some True, prop_name = None, component_name = None\<rparr>\<rparr>"]
  by simp

end
